theory Spec2Isabelle
  imports Complex_Main "HOL-Library.Word" "HOL-Library.Signed_Division" "HOL-Library.Monad_Syntax"
begin

unbundle bit_operations_syntax

section \<open>Data model\<close>

text \<open>
  Modelled from the spec: the header \<^verbatim>\<open>clock.h\<close>, which declares the struct
  \<^verbatim>\<open>tod_t\<close> and the two port variables, is not among the sources. The spec
  (section 3) gives every field of the time of day as an integer, so the fields are
  unbounded integers here: whatever C integer type the header picks, every value a field
  can hold is one of these, and C promotes it to \<^verbatim>\<open>int\<close> before comparing or
  dividing. The ports are C \<^verbatim>\<open>int\<close>s (the source copies them into \<^verbatim>\<open>int\<close>
  locals), that is 32-bit words read as two's complement.
\<close>

record tod_t =
  day_secs :: int
  time_secs :: int
  time_mins :: int
  time_hours :: int
  ampm :: int

text \<open>The two global port cells.\<close>

record ports =
  TIME_OF_DAY_PORT :: "32 word"
  CLOCK_DISPLAY_PORT :: "32 word"

section \<open>Decoding the time-of-day port\<close>

text \<open>
  \<^verbatim>\<open>int set_tod_from_ports(tod_t *tod)\<close>: the struct behind the pointer is passed in
  and returned next to the return code. \<^verbatim>\<open>/\<close> and \<^verbatim>\<open>%\<close> are C's truncating
  \<open>sdiv\<close> and \<open>smod\<close>, \<^verbatim>\<open>>>\<close> on an \<^verbatim>\<open>int\<close> is the arithmetic shift.
\<close>

definition set_tod_from_ports :: "ports \<Rightarrow> tod_t \<Rightarrow> int \<times> tod_t" where
  "set_tod_from_ports st tod =
     (let port_val = TIME_OF_DAY_PORT st in
      if port_val <s 0 \<or> 16 * 86400 <s port_val then (1, tod)
      else
        let tod = tod\<lparr>day_secs := sint (signed_drop_bit 4 (port_val + 8))\<rparr>;
            tod = tod\<lparr>time_hours := (day_secs tod sdiv 3600) smod 24\<rparr>;
            tod = (if time_hours tod = 0 then tod\<lparr>time_hours := 12\<rparr>
                   else if time_hours tod > 12 then tod\<lparr>time_hours := time_hours tod - 12\<rparr>
                   else tod);
            tod = tod\<lparr>time_mins := (day_secs tod smod 3600) sdiv 60\<rparr>;
            tod = tod\<lparr>time_secs := day_secs tod smod 60\<rparr>;
            tod = (if day_secs tod \<ge> 43200 then tod\<lparr>ampm := 2\<rparr> else tod\<lparr>ampm := 1\<rparr>)
        in (0, tod))"

section \<open>Encoding the display pattern\<close>

text \<open>The bit masks for the digits 0 to 9, as the source lists them: the local array
  \<^verbatim>\<open>int mask[10]\<close>.\<close>

definition mask_arr :: "32 word list" where
  "mask_arr = [0b1110111, 0b0100100, 0b1011101, 0b1101101, 0b0101110,
           0b1101011, 0b1111011, 0b0100101, 0b1111111, 0b1101111]"

text \<open>
  Reading \<^verbatim>\<open>mask[i]\<close>: the array has ten elements, and a read outside it is undefined
  in C, which the model reports as \<open>None\<close>.
\<close>

definition mask_at :: "int \<Rightarrow> 32 word option" where
  "mask_at i = (if 0 \<le> i \<and> i < 10 then Some (mask_arr ! nat i) else None)"

text \<open>The validation of \<^verbatim>\<open>set_display_from_tod\<close>: true when the function gives up.\<close>

definition tod_rejected :: "tod_t \<Rightarrow> bool" where
  "tod_rejected tod \<longleftrightarrow>
     time_secs tod < 0 \<or> time_secs tod > 59 \<or> time_mins tod < 0 \<or> time_mins tod > 59 \<or>
     time_hours tod < 0 \<or> time_hours tod > 12 \<or> ampm tod > 2"

text \<open>The four digit indices, the locals of the same names.\<close>

definition min_ones :: "tod_t \<Rightarrow> int" where
  "min_ones tod = time_mins tod smod 10"

definition min_tens :: "tod_t \<Rightarrow> int" where
  "min_tens tod = time_mins tod sdiv 10"

definition hrs_ones :: "tod_t \<Rightarrow> int" where
  "hrs_ones tod = time_hours tod smod 10"

definition hrs_tens :: "tod_t \<Rightarrow> int" where
  "hrs_tens tod = time_hours tod sdiv 10"

text \<open>
  \<^verbatim>\<open>int set_display_from_tod(tod_t tod, int *display)\<close>: the cell behind
  \<^verbatim>\<open>display\<close> is passed in and returned next to the return code; \<open>None\<close> is an
  out-of-bounds read of \<open>mask_arr\<close>.
\<close>

definition set_display_from_tod :: "tod_t \<Rightarrow> 32 word \<Rightarrow> (int \<times> 32 word) option" where
  "set_display_from_tod tod display =
     (if tod_rejected tod then Some (1, display)
      else do {
        m0 \<leftarrow> mask_at (min_ones tod);
        let display = m0;
        display \<leftarrow>
          (if hrs_tens tod = 0 then do {
             mt \<leftarrow> mask_at (min_tens tod);
             ho \<leftarrow> mask_at (hrs_ones tod);
             Some (push_bit 7 mt OR push_bit 14 ho OR display)
           } else do {
             mt \<leftarrow> mask_at (min_tens tod);
             ho \<leftarrow> mask_at (hrs_ones tod);
             ht \<leftarrow> mask_at (hrs_tens tod);
             Some (push_bit 7 mt OR push_bit 14 ho OR push_bit 21 ht OR display)
           });
        let display = (if ampm tod = 1 then push_bit 28 1 OR display
                       else push_bit 29 1 OR display);
        Some (0, display)
      })"

section \<open>The controller\<close>

text \<open>
  \<^verbatim>\<open>int clock_update()\<close>: \<open>tod0\<close> is the indeterminate content of the local
  \<^verbatim>\<open>tod\<close> before the decoder fills it. The return code of the encoder is dropped,
  as in the source.
\<close>

definition clock_update :: "tod_t \<Rightarrow> ports \<Rightarrow> (int \<times> ports) option" where
  "clock_update tod0 st =
     (case set_tod_from_ports st tod0 of (result, tod) \<Rightarrow>
        if result = 1 then Some (1, st)
        else do {
          (r, ptr) \<leftarrow> set_display_from_tod tod 0;
          Some (0, st\<lparr>CLOCK_DISPLAY_PORT := ptr\<rparr>)
        })"

section \<open>Auxiliary definitions\<close>

text \<open>The port value as the C local \<^verbatim>\<open>int port_val\<close> holds it: a signed integer.\<close>

definition port_val :: "ports \<Rightarrow> int" where
  "port_val st = sint (TIME_OF_DAY_PORT st)"

text \<open>The if-chain of the decoder that turns an hour of 0..23 into an hour of 1..12.\<close>

definition hour12 :: "int \<Rightarrow> int" where
  "hour12 h = (if h = 0 then 12 else if h > 12 then h - 12 else h)"

subsection \<open>The decoder as the specification words it\<close>

text \<open>The two values of the AM/PM designation.\<close>

definition AM :: int where "AM = 1"

definition PM :: int where "PM = 2"

text \<open>Dividing by 16 and rounding to the nearest integer, ties rounding up.\<close>

definition spec_day_seconds :: "int \<Rightarrow> int" where
  "spec_day_seconds raw = \<lfloor>real_of_int raw / 16 + 1 / 2\<rfloor>"

definition spec_hour_24 :: "int \<Rightarrow> int" where
  "spec_hour_24 day_seconds = (day_seconds div 3600) mod 24"

definition spec_hour :: "int \<Rightarrow> int" where
  "spec_hour day_seconds =
     (if spec_hour_24 day_seconds = 0 then 12
      else if spec_hour_24 day_seconds > 12 then spec_hour_24 day_seconds - 12
      else spec_hour_24 day_seconds)"

definition spec_minute :: "int \<Rightarrow> int" where
  "spec_minute day_seconds = (day_seconds mod 3600) div 60"

definition spec_second :: "int \<Rightarrow> int" where
  "spec_second day_seconds = day_seconds mod 60"

definition spec_meridiem :: "int \<Rightarrow> int" where
  "spec_meridiem day_seconds = (if day_seconds \<ge> 43200 then PM else AM)"

subsection \<open>The display pattern as the specification words it\<close>

text \<open>The bounds that the specification puts on a time of day (its section 3).\<close>

definition tod_invariant :: "tod_t \<Rightarrow> bool" where
  "tod_invariant tod \<longleftrightarrow>
     0 \<le> time_secs tod \<and> time_secs tod \<le> 59 \<and> 0 \<le> time_mins tod \<and> time_mins tod \<le> 59 \<and>
     1 \<le> time_hours tod \<and> time_hours tod \<le> 12 \<and> (ampm tod = AM \<or> ampm tod = PM)"

text \<open>The 7-bit field of a display pattern that starts at bit offset \<open>off\<close>.\<close>

definition seg_field :: "nat \<Rightarrow> 32 word \<Rightarrow> 32 word" where
  "seg_field off display = take_bit 7 (drop_bit off display)"

section \<open>Facts about the decoder\<close>

lemma port_guard:
  fixes p :: "32 word"
  shows "p <s 0 \<longleftrightarrow> sint p < 0" "1382400 <s p \<longleftrightarrow> 1382400 < sint p"
  by (simp_all add: word_sless_alt)

text \<open>On a port value that passes the guard, the addition does not overflow and the
  shift is a division by 16.\<close>

lemma port_shift:
  fixes p :: "32 word"
  assumes "0 \<le> sint p" "sint p \<le> 16 * 86400"
  shows "sint (signed_drop_bit 4 (p + 8)) = (sint p + 8) div 16"
proof -
  have "sint (p + 8) = sint p + 8"
    using assms by (simp add: sint_word_add signed_take_bit_int_eq_self)
  then show ?thesis
    by (simp add: sint_signed_drop_bit_eq drop_bit_eq_div)
qed

text \<open>C's truncating division and remainder agree with \<open>div\<close> and \<open>mod\<close> on
  operands that are not negative.\<close>

lemma sdiv_nonneg: "0 \<le> a \<Longrightarrow> 0 \<le> b \<Longrightarrow> (a::int) sdiv b = a div b"
  by (simp add: signed_divide_int_def sgn_if)

lemma smod_nonneg: "0 \<le> a \<Longrightarrow> 0 \<le> b \<Longrightarrow> (a::int) smod b = a mod b"
  by (simp add: signed_modulo_int_def sgn_if)

lemma set_tod_from_ports_fail:
  assumes "sint (TIME_OF_DAY_PORT st) < 0 \<or> 16 * 86400 < sint (TIME_OF_DAY_PORT st)"
  shows "set_tod_from_ports st tod = (1, tod)"
  using assms by (simp add: set_tod_from_ports_def port_guard)

lemma set_tod_from_ports_ok:
  assumes "0 \<le> sint (TIME_OF_DAY_PORT st)" "sint (TIME_OF_DAY_PORT st) \<le> 16 * 86400"
  defines "d \<equiv> (sint (TIME_OF_DAY_PORT st) + 8) div 16"
  shows "set_tod_from_ports st tod =
           (0, tod\<lparr>day_secs := d, time_hours := hour12 ((d div 3600) mod 24),
                   time_mins := (d mod 3600) div 60, time_secs := d mod 60,
                   ampm := (if d \<ge> 43200 then 2 else 1)\<rparr>)"
proof -
  have g: "\<not> (TIME_OF_DAY_PORT st <s 0 \<or> 16 * 86400 <s TIME_OF_DAY_PORT st)"
    using assms(1,2) by (simp add: port_guard)
  have s: "sint (signed_drop_bit 4 (TIME_OF_DAY_PORT st + 8)) = d"
    unfolding d_def using assms(1,2) by (rule port_shift)
  have d0: "0 \<le> d"
    unfolding d_def using assms(1) by simp
  have e1: "d sdiv 3600 = d div 3600"
    using d0 by (simp add: sdiv_nonneg)
  have e2: "(d div 3600) smod 24 = (d div 3600) mod 24"
    using d0 by (simp add: smod_nonneg)
  have e3: "d smod 3600 = d mod 3600"
    using d0 by (simp add: smod_nonneg)
  have e4: "(d mod 3600) sdiv 60 = (d mod 3600) div 60"
    by (simp add: sdiv_nonneg)
  have e5: "d smod 60 = d mod 60"
    using d0 by (simp add: smod_nonneg)
  show ?thesis
    using g by (simp add: set_tod_from_ports_def Let_def s e1 e2 e3 e4 e5 hour12_def)
qed

lemma decoded_fields:
  assumes "set_tod_from_ports st tod0 = (0, tod)"
  defines "d \<equiv> (sint (TIME_OF_DAY_PORT st) + 8) div 16"
  shows "0 \<le> sint (TIME_OF_DAY_PORT st)" "sint (TIME_OF_DAY_PORT st) \<le> 16 * 86400"
    "day_secs tod = d" "time_hours tod = hour12 ((d div 3600) mod 24)"
    "time_mins tod = (d mod 3600) div 60" "time_secs tod = d mod 60"
    "ampm tod = (if d \<ge> 43200 then 2 else 1)"
proof -
  have r: "0 \<le> sint (TIME_OF_DAY_PORT st) \<and> sint (TIME_OF_DAY_PORT st) \<le> 16 * 86400"
  proof (rule ccontr)
    assume "\<not> ?thesis"
    then have "set_tod_from_ports st tod0 = (1, tod0)"
      by (intro set_tod_from_ports_fail) auto
    with assms(1) show False by simp
  qed
  then show "0 \<le> sint (TIME_OF_DAY_PORT st)" "sint (TIME_OF_DAY_PORT st) \<le> 16 * 86400"
    by simp_all
  from r have "set_tod_from_ports st tod0 =
           (0, tod0\<lparr>day_secs := d, time_hours := hour12 ((d div 3600) mod 24),
                   time_mins := (d mod 3600) div 60, time_secs := d mod 60,
                   ampm := (if d \<ge> 43200 then 2 else 1)\<rparr>)"
    unfolding d_def by (intro set_tod_from_ports_ok) simp_all
  with assms(1) have t: "tod = tod0\<lparr>day_secs := d, time_hours := hour12 ((d div 3600) mod 24),
                   time_mins := (d mod 3600) div 60, time_secs := d mod 60,
                   ampm := (if d \<ge> 43200 then 2 else 1)\<rparr>"
    by simp
  show "day_secs tod = d" "time_hours tod = hour12 ((d div 3600) mod 24)"
    "time_mins tod = (d mod 3600) div 60" "time_secs tod = d mod 60"
    "ampm tod = (if d \<ge> 43200 then 2 else 1)"
    by (simp_all add: t)
qed

lemma hour12_range: "0 \<le> h \<Longrightarrow> h < 24 \<Longrightarrow> 1 \<le> hour12 h \<and> hour12 h \<le> 12"
  by (simp add: hour12_def)

lemma mins_range: "0 \<le> (d mod 3600) div 60 \<and> (d mod 3600) div 60 \<le> (59::int)"
proof -
  have "0 \<le> d mod 3600" "d mod 3600 < 3600" by simp_all
  then show ?thesis by linarith
qed

lemma spec_day_seconds_eq: "spec_day_seconds raw = (raw + 8) div 16"
proof -
  have "real_of_int raw / 16 + 1 / 2 = real_of_int (raw + 8) / real_of_int 16"
    by simp
  then have "spec_day_seconds raw = \<lfloor>real_of_int (raw + 8) / real_of_int 16\<rfloor>"
    by (simp only: spec_day_seconds_def)
  then show ?thesis
    by (simp only: floor_divide_of_int_eq)
qed

lemma spec_hour_eq: "spec_hour d = hour12 ((d div 3600) mod 24)"
  by (simp add: spec_hour_def spec_hour_24_def hour12_def)

text \<open>Every port value of the last half second of the day decodes to the same time.\<close>

lemma midnight_raws:
  assumes "16 * 86400 - 8 \<le> port_val st" "port_val st \<le> 16 * 86400"
  shows "set_tod_from_ports st tod =
           (0, tod\<lparr>day_secs := 86400, time_hours := 12, time_mins := 0, time_secs := 0,
                   ampm := 2\<rparr>)"
proof -
  have d: "(sint (TIME_OF_DAY_PORT st) + 8) div 16 = 86400"
    using assms unfolding port_val_def by linarith
  have "0 \<le> sint (TIME_OF_DAY_PORT st)" "sint (TIME_OF_DAY_PORT st) \<le> 16 * 86400"
    using assms unfolding port_val_def by simp_all
  then show ?thesis
    using set_tod_from_ports_ok [of st tod] by (simp add: d hour12_def)
qed

lemma decode_46800:
  "set_tod_from_ports \<lparr>TIME_OF_DAY_PORT = 16 * 46800, CLOCK_DISPLAY_PORT = c\<rparr> tod =
     (0, tod\<lparr>day_secs := 46800, time_hours := 1, time_mins := 0, time_secs := 0, ampm := 2\<rparr>)"
  using set_tod_from_ports_ok [of "\<lparr>TIME_OF_DAY_PORT = 16 * 46800, CLOCK_DISPLAY_PORT = c\<rparr>" tod]
  by (simp add: hour12_def)

section \<open>The claims about the decoder\<close>

text \<open>
  Claim C1. The claim says that every port value in [16*86400 - 8, 16*86400] decodes to
  day_secs 86400, hour 12 and the designation AM. At the port value 16*86400 the decoder
  does return 0 with day_secs 86400 and hour 12 (the hour is folded by the modulo 24), but
  the designation is taken from \<open>day_secs \<ge> 43200\<close>, which is not folded, and comes
  out as 2 (PM). By \<open>midnight_raws\<close> the same holds on the whole interval.
\<close>

theorem midnight_wrap_gives_PM:
  "set_tod_from_ports \<lparr>TIME_OF_DAY_PORT = 16 * 86400, CLOCK_DISPLAY_PORT = c\<rparr> tod =
     (0, tod\<lparr>day_secs := 86400, time_hours := 12, time_mins := 0, time_secs := 0,
             ampm := 2\<rparr>)"
  by (rule midnight_raws) (simp_all add: port_val_def)

text \<open>
  Claim C3. The decoder returns 0 exactly when the port value lies in [0, 16*86400]; on
  such a value the decoded day_secs lies in [0, 86400]; on any other value it returns 1
  and the struct is left as it was.
\<close>

theorem set_tod_from_ports_range:
  "(fst (set_tod_from_ports st tod) = 0 \<longleftrightarrow> 0 \<le> port_val st \<and> port_val st \<le> 16 * 86400) \<and>
   (0 \<le> port_val st \<and> port_val st \<le> 16 * 86400 \<longrightarrow>
      0 \<le> day_secs (snd (set_tod_from_ports st tod)) \<and>
      day_secs (snd (set_tod_from_ports st tod)) \<le> 86400) \<and>
   (port_val st < 0 \<or> 16 * 86400 < port_val st \<longrightarrow> set_tod_from_ports st tod = (1, tod))"
proof (cases "0 \<le> port_val st \<and> port_val st \<le> 16 * 86400")
  case True
  then have r: "0 \<le> sint (TIME_OF_DAY_PORT st)" "sint (TIME_OF_DAY_PORT st) \<le> 16 * 86400"
    by (simp_all add: port_val_def)
  have b: "0 \<le> (sint (TIME_OF_DAY_PORT st) + 8) div 16"
    "(sint (TIME_OF_DAY_PORT st) + 8) div 16 \<le> 86400"
    using r by simp_all
  show ?thesis
    using True b by (simp add: set_tod_from_ports_ok [OF r])
next
  case False
  then have "sint (TIME_OF_DAY_PORT st) < 0 \<or> 16 * 86400 < sint (TIME_OF_DAY_PORT st)"
    by (auto simp: port_val_def)
  then have "set_tod_from_ports st tod = (1, tod)"
    by (rule set_tod_from_ports_fail)
  with False show ?thesis by auto
qed

theorem set_tod_from_ports_range_witness:
  "fst (set_tod_from_ports \<lparr>TIME_OF_DAY_PORT = 16, CLOCK_DISPLAY_PORT = 0\<rparr>
          \<lparr>day_secs = 0, time_secs = 0, time_mins = 0, time_hours = 0, ampm = 0\<rparr>) = 0 \<and>
   day_secs (snd (set_tod_from_ports \<lparr>TIME_OF_DAY_PORT = 16, CLOCK_DISPLAY_PORT = 0\<rparr>
          \<lparr>day_secs = 0, time_secs = 0, time_mins = 0, time_hours = 0, ampm = 0\<rparr>)) \<le> 86400 \<and>
   set_tod_from_ports \<lparr>TIME_OF_DAY_PORT = - 1, CLOCK_DISPLAY_PORT = 0\<rparr>
          \<lparr>day_secs = 0, time_secs = 0, time_mins = 0, time_hours = 0, ampm = 0\<rparr> =
     (1, \<lparr>day_secs = 0, time_secs = 0, time_mins = 0, time_hours = 0, ampm = 0\<rparr>)"
  using set_tod_from_ports_range [of "\<lparr>TIME_OF_DAY_PORT = 16, CLOCK_DISPLAY_PORT = 0\<rparr>"
               "\<lparr>day_secs = 0, time_secs = 0, time_mins = 0, time_hours = 0, ampm = 0\<rparr>"]
        set_tod_from_ports_range [of "\<lparr>TIME_OF_DAY_PORT = - 1, CLOCK_DISPLAY_PORT = 0\<rparr>"
               "\<lparr>day_secs = 0, time_secs = 0, time_mins = 0, time_hours = 0, ampm = 0\<rparr>"]
  by (simp add: port_val_def)

text \<open>
  Claim C4. On a port value in [0, 16*86400] the decoded day_secs is the port value plus 8
  shifted right by 4 bits, which is the port value divided by 16 and rounded to the
  nearest integer, ties rounding up: it is within 8 sixteenths of the port value, and a
  port value exactly half way lies below it. The port values 15 and 8 give 1, and 7
  gives 0.
\<close>

theorem day_secs_round_half_up:
  assumes "0 \<le> port_val st" "port_val st \<le> 16 * 86400"
  shows "day_secs (snd (set_tod_from_ports st tod)) = drop_bit 4 (port_val st + 8) \<and>
         day_secs (snd (set_tod_from_ports st tod)) = spec_day_seconds (port_val st) \<and>
         16 * day_secs (snd (set_tod_from_ports st tod)) - 8 \<le> port_val st \<and>
         port_val st < 16 * day_secs (snd (set_tod_from_ports st tod)) + 8 \<and>
         (port_val st = 15 \<longrightarrow> day_secs (snd (set_tod_from_ports st tod)) = 1) \<and>
         (port_val st = 8 \<longrightarrow> day_secs (snd (set_tod_from_ports st tod)) = 1) \<and>
         (port_val st = 7 \<longrightarrow> day_secs (snd (set_tod_from_ports st tod)) = 0)"
proof -
  have r: "0 \<le> sint (TIME_OF_DAY_PORT st)" "sint (TIME_OF_DAY_PORT st) \<le> 16 * 86400"
    using assms by (simp_all add: port_val_def)
  have d: "day_secs (snd (set_tod_from_ports st tod)) = (port_val st + 8) div 16"
    by (simp add: set_tod_from_ports_ok [OF r] port_val_def)
  have "16 * ((port_val st + 8) div 16) - 8 \<le> port_val st"
    "port_val st < 16 * ((port_val st + 8) div 16) + 8"
    by linarith+
  then show ?thesis
    unfolding d by (auto simp: spec_day_seconds_eq drop_bit_eq_div)
qed

theorem day_secs_round_half_up_witness:
  "day_secs (snd (set_tod_from_ports \<lparr>TIME_OF_DAY_PORT = 8, CLOCK_DISPLAY_PORT = 0\<rparr>
      \<lparr>day_secs = 0, time_secs = 0, time_mins = 0, time_hours = 0, ampm = 0\<rparr>)) = 1"
  using day_secs_round_half_up [of "\<lparr>TIME_OF_DAY_PORT = 8, CLOCK_DISPLAY_PORT = 0\<rparr>"
               "\<lparr>day_secs = 0, time_secs = 0, time_mins = 0, time_hours = 0, ampm = 0\<rparr>"]
  by (simp add: port_val_def)

text \<open>
  Claim C5. After a successful decode the hour, minute, second and AM/PM designation are
  the functions of day_secs that the specification gives: the hour is
  (day_secs / 3600) mod 24 in 12-hour form, the minute (day_secs mod 3600) / 60, the second
  day_secs mod 60, and the designation is PM exactly when day_secs is at least 43200. So
  day_secs 0 is 12 AM, 3600 is 1 AM, 43200 is 12 PM and 46800 is 1 PM.
\<close>

theorem decoded_fields_follow_spec:
  assumes "set_tod_from_ports st tod0 = (0, tod)"
  shows "time_hours tod = spec_hour (day_secs tod) \<and>
         time_mins tod = spec_minute (day_secs tod) \<and>
         time_secs tod = spec_second (day_secs tod) \<and>
         ampm tod = spec_meridiem (day_secs tod) \<and>
         (ampm tod = PM \<longleftrightarrow> day_secs tod \<ge> 43200) \<and>
         (day_secs tod = 0 \<longrightarrow> time_hours tod = 12 \<and> ampm tod = AM) \<and>
         (day_secs tod = 3600 \<longrightarrow> time_hours tod = 1 \<and> ampm tod = AM) \<and>
         (day_secs tod = 43200 \<longrightarrow> time_hours tod = 12 \<and> ampm tod = PM) \<and>
         (day_secs tod = 46800 \<longrightarrow> time_hours tod = 1 \<and> ampm tod = PM)"
proof -
  note f = decoded_fields [OF assms]
  have h: "time_hours tod = spec_hour (day_secs tod)"
    by (simp only: f(3,4) spec_hour_eq)
  have m: "time_mins tod = spec_minute (day_secs tod)"
    by (simp only: f(3,5) spec_minute_def)
  have s: "time_secs tod = spec_second (day_secs tod)"
    by (simp only: f(3,6) spec_second_def)
  have a: "ampm tod = spec_meridiem (day_secs tod)"
    by (simp add: f(3,7) spec_meridiem_def AM_def PM_def)
  have p: "ampm tod = PM \<longleftrightarrow> day_secs tod \<ge> 43200"
    by (simp add: a spec_meridiem_def AM_def PM_def)
  have e0: "day_secs tod = 0 \<longrightarrow> time_hours tod = 12 \<and> ampm tod = AM"
    by (simp add: h a spec_hour_def spec_hour_24_def spec_meridiem_def)
  have e1: "day_secs tod = 3600 \<longrightarrow> time_hours tod = 1 \<and> ampm tod = AM"
    by (simp add: h a spec_hour_def spec_hour_24_def spec_meridiem_def)
  have e2: "day_secs tod = 43200 \<longrightarrow> time_hours tod = 12 \<and> ampm tod = PM"
    by (simp add: h a spec_hour_def spec_hour_24_def spec_meridiem_def)
  have e3: "day_secs tod = 46800 \<longrightarrow> time_hours tod = 1 \<and> ampm tod = PM"
    by (simp add: h a spec_hour_def spec_hour_24_def spec_meridiem_def)
  from h m s a p e0 e1 e2 e3 show ?thesis by blast
qed

theorem decoded_fields_follow_spec_witness:
  "set_tod_from_ports \<lparr>TIME_OF_DAY_PORT = 16 * 46800, CLOCK_DISPLAY_PORT = 0\<rparr>
      \<lparr>day_secs = 0, time_secs = 0, time_mins = 0, time_hours = 0, ampm = 0\<rparr> =
     (0, \<lparr>day_secs = 46800, time_secs = 0, time_mins = 0, time_hours = 1, ampm = 2\<rparr>) \<and>
   time_hours \<lparr>day_secs = 46800, time_secs = 0, time_mins = 0, time_hours = 1, ampm = 2\<rparr>
     = spec_hour 46800 \<and>
   ampm \<lparr>day_secs = 46800, time_secs = 0, time_mins = 0, time_hours = 1, ampm = 2\<rparr> = PM"
proof -
  have e: "set_tod_from_ports \<lparr>TIME_OF_DAY_PORT = 16 * 46800, CLOCK_DISPLAY_PORT = 0\<rparr>
      \<lparr>day_secs = 0, time_secs = 0, time_mins = 0, time_hours = 0, ampm = 0\<rparr> =
     (0, \<lparr>day_secs = 46800, time_secs = 0, time_mins = 0, time_hours = 1, ampm = 2\<rparr>)"
    using decode_46800 [of 0 "\<lparr>day_secs = 0, time_secs = 0, time_mins = 0, time_hours = 0, ampm = 0\<rparr>"]
    by simp
  from decoded_fields_follow_spec [OF e] e show ?thesis by simp
qed

text \<open>
  Claim C6. Every time of day that the decoder produces keeps the bounds of the type:
  the hour is in [1, 12], the minute and the second are in [0, 59], and the AM/PM
  designation is 1 or 2.
\<close>

theorem decoded_tod_in_bounds:
  assumes "set_tod_from_ports st tod0 = (0, tod)"
  shows "1 \<le> time_hours tod \<and> time_hours tod \<le> 12 \<and>
         0 \<le> time_mins tod \<and> time_mins tod \<le> 59 \<and>
         0 \<le> time_secs tod \<and> time_secs tod \<le> 59 \<and>
         (ampm tod = 1 \<or> ampm tod = 2)"
proof -
  note f = decoded_fields [OF assms]
  have h: "1 \<le> time_hours tod \<and> time_hours tod \<le> 12"
    unfolding f(4) by (rule hour12_range) simp_all
  have m: "0 \<le> time_mins tod \<and> time_mins tod \<le> 59"
    unfolding f(5) by (rule mins_range)
  have s: "0 \<le> time_secs tod \<and> time_secs tod \<le> 59"
    unfolding f(6) by simp
  have a: "ampm tod = 1 \<or> ampm tod = 2"
    unfolding f(7) by simp
  from h m s a show ?thesis by blast
qed

theorem decoded_tod_in_bounds_witness:
  "1 \<le> time_hours \<lparr>day_secs = 46800, time_secs = 0, time_mins = 0, time_hours = 1, ampm = 2\<rparr> \<and>
   set_tod_from_ports \<lparr>TIME_OF_DAY_PORT = 16 * 46800, CLOCK_DISPLAY_PORT = 0\<rparr>
      \<lparr>day_secs = 0, time_secs = 0, time_mins = 0, time_hours = 0, ampm = 0\<rparr> =
     (0, \<lparr>day_secs = 46800, time_secs = 0, time_mins = 0, time_hours = 1, ampm = 2\<rparr>)"
proof -
  have e: "set_tod_from_ports \<lparr>TIME_OF_DAY_PORT = 16 * 46800, CLOCK_DISPLAY_PORT = 0\<rparr>
      \<lparr>day_secs = 0, time_secs = 0, time_mins = 0, time_hours = 0, ampm = 0\<rparr> =
     (0, \<lparr>day_secs = 46800, time_secs = 0, time_mins = 0, time_hours = 1, ampm = 2\<rparr>)"
    using decode_46800 [of 0 "\<lparr>day_secs = 0, time_secs = 0, time_mins = 0, time_hours = 0, ampm = 0\<rparr>"]
    by simp
  from decoded_tod_in_bounds [OF e] e show ?thesis by simp
qed

section \<open>Facts about the encoder\<close>

lemma length_mask_arr: "length mask_arr = 10"
  by (simp add: mask_arr_def)

lemma mask_arr_all_7bit: "\<forall>w \<in> set mask_arr. take_bit 7 w = w"
  by (simp add: mask_arr_def)

lemma mask_arr_7bit: "i < 10 \<Longrightarrow> take_bit 7 (mask_arr ! i) = mask_arr ! i"
  using mask_arr_all_7bit by (simp add: length_mask_arr)

lemma mask_at_Some: "0 \<le> i \<Longrightarrow> i \<le> 9 \<Longrightarrow> mask_at i = Some (mask_arr ! nat i)"
  by (simp add: mask_at_def)

text \<open>After the validation the digits are those of \<open>div\<close> and \<open>mod\<close>, and each is
  an index of the array.\<close>

lemma digits_in_range:
  assumes "\<not> tod_rejected tod"
  shows "0 \<le> min_ones tod \<and> min_ones tod \<le> 9" "0 \<le> min_tens tod \<and> min_tens tod \<le> 9"
        "0 \<le> hrs_ones tod \<and> hrs_ones tod \<le> 9" "0 \<le> hrs_tens tod \<and> hrs_tens tod \<le> 9"
        "min_ones tod = time_mins tod mod 10" "min_tens tod = time_mins tod div 10"
        "hrs_ones tod = time_hours tod mod 10" "hrs_tens tod = time_hours tod div 10"
proof -
  from assms have m: "0 \<le> time_mins tod" "time_mins tod \<le> 59"
    and h: "0 \<le> time_hours tod" "time_hours tod \<le> 12"
    by (simp_all add: tod_rejected_def)
  show a: "min_ones tod = time_mins tod mod 10" "min_tens tod = time_mins tod div 10"
        "hrs_ones tod = time_hours tod mod 10" "hrs_tens tod = time_hours tod div 10"
    using m h
    by (simp_all add: min_ones_def min_tens_def hrs_ones_def hrs_tens_def sdiv_nonneg smod_nonneg)
  show "0 \<le> min_ones tod \<and> min_ones tod \<le> 9" unfolding a by simp
  show "0 \<le> min_tens tod \<and> min_tens tod \<le> 9" unfolding a using m by linarith
  show "0 \<le> hrs_ones tod \<and> hrs_ones tod \<le> 9" unfolding a by simp
  show "0 \<le> hrs_tens tod \<and> hrs_tens tod \<le> 9" unfolding a using h by linarith
qed

lemma set_display_from_tod_rejected:
  "tod_rejected tod \<Longrightarrow> set_display_from_tod tod display = Some (1, display)"
  by (simp add: set_display_from_tod_def)

lemma set_display_from_tod_ok:
  assumes "\<not> tod_rejected tod"
  shows "set_display_from_tod tod display =
    Some (0, push_bit (if ampm tod = 1 then 28 else 29) 1 OR
             (push_bit 7 (mask_arr ! nat (min_tens tod)) OR
              push_bit 14 (mask_arr ! nat (hrs_ones tod)) OR
              push_bit 21 (if hrs_tens tod = 0 then 0 else mask_arr ! nat (hrs_tens tod)) OR
              mask_arr ! nat (min_ones tod)))"
proof -
  note d = digits_in_range(1-4) [OF assms]
  have m: "mask_at (min_ones tod) = Some (mask_arr ! nat (min_ones tod))"
    "mask_at (min_tens tod) = Some (mask_arr ! nat (min_tens tod))"
    "mask_at (hrs_ones tod) = Some (mask_arr ! nat (hrs_ones tod))"
    "mask_at (hrs_tens tod) = Some (mask_arr ! nat (hrs_tens tod))"
    using d by (simp_all add: mask_at_Some)
  show ?thesis
    using assms by (simp add: set_display_from_tod_def m)
qed

lemma bit_7bit:
  fixes w :: "32 word"
  assumes "take_bit 7 w = w"
  shows "bit w n \<longleftrightarrow> n < 7 \<and> bit w n"
proof -
  have "bit w n = bit (take_bit 7 w) n" by (simp only: assms)
  then show ?thesis by (simp add: bit_take_bit_iff)
qed

text \<open>Four 7-bit values packed at the offsets 0, 7, 14 and 21 under one flag bit can be
  read back, and the flag is the only bit among 28 and 29.\<close>

lemma fields_of_pattern:
  fixes a b c d :: "32 word"
  assumes "take_bit 7 a = a" "take_bit 7 b = b" "take_bit 7 c = c" "take_bit 7 d = d"
    and "f = 28 \<or> f = 29"
  defines "p \<equiv> push_bit f 1 OR (push_bit 7 b OR push_bit 14 c OR push_bit 21 d OR a)"
  shows "seg_field 0 p = a" "seg_field 7 p = b" "seg_field 14 p = c" "seg_field 21 p = d"
    "bit p 28 \<longleftrightarrow> f = 28" "bit p 29 \<longleftrightarrow> f = 29"
proof -
  note A = bit_7bit [OF assms(1)] and B = bit_7bit [OF assms(2)]
    and C = bit_7bit [OF assms(3)] and D = bit_7bit [OF assms(4)]
  show "seg_field 0 p = a"
  proof (rule bit_word_eqI)
    fix n assume "n < LENGTH(32)"
    show "bit (seg_field 0 p) n = bit a n"
      using assms(5) A [of n] B [of "n - 7"] C [of "n - 14"] D [of "n - 21"]
      by (auto simp: seg_field_def p_def bit_simps)
  qed
  show "seg_field 7 p = b"
  proof (rule bit_word_eqI)
    fix n assume "n < LENGTH(32)"
    show "bit (seg_field 7 p) n = bit b n"
      using assms(5) A [of "7 + n"] B [of n] C [of "7 + n - 14"] D [of "7 + n - 21"]
      by (auto simp: seg_field_def p_def bit_simps)
  qed
  show "seg_field 14 p = c"
  proof (rule bit_word_eqI)
    fix n assume "n < LENGTH(32)"
    show "bit (seg_field 14 p) n = bit c n"
      using assms(5) A [of "14 + n"] B [of "14 + n - 7"] C [of n] D [of "14 + n - 21"]
      by (auto simp: seg_field_def p_def bit_simps)
  qed
  show "seg_field 21 p = d"
  proof (rule bit_word_eqI)
    fix n assume "n < LENGTH(32)"
    show "bit (seg_field 21 p) n = bit d n"
      using assms(5) A [of "21 + n"] B [of "21 + n - 7"] C [of "21 + n - 14"] D [of n]
      by (auto simp: seg_field_def p_def bit_simps)
  qed
  show "bit p 28 \<longleftrightarrow> f = 28"
    using assms(5) A [of 28] B [of 21] C [of 14] D [of 7]
    by (auto simp: p_def bit_simps)
  show "bit p 29 \<longleftrightarrow> f = 29"
    using assms(5) A [of 29] B [of 22] C [of 15] D [of 8]
    by (auto simp: p_def bit_simps)
qed

lemma accepted_pattern:
  assumes "set_display_from_tod tod display = Some (0, d)"
  shows "\<not> tod_rejected tod"
    "d = push_bit (if ampm tod = 1 then 28 else 29) 1 OR
             (push_bit 7 (mask_arr ! nat (min_tens tod)) OR
              push_bit 14 (mask_arr ! nat (hrs_ones tod)) OR
              push_bit 21 (if hrs_tens tod = 0 then 0 else mask_arr ! nat (hrs_tens tod)) OR
              mask_arr ! nat (min_ones tod))"
proof -
  show r: "\<not> tod_rejected tod"
  proof
    assume "tod_rejected tod"
    then have "set_display_from_tod tod display = Some (1, display)"
      by (rule set_display_from_tod_rejected)
    with assms show False by simp
  qed
  from set_display_from_tod_ok [OF r, of display] assms
  show "d = push_bit (if ampm tod = 1 then 28 else 29) 1 OR
             (push_bit 7 (mask_arr ! nat (min_tens tod)) OR
              push_bit 14 (mask_arr ! nat (hrs_ones tod)) OR
              push_bit 21 (if hrs_tens tod = 0 then 0 else mask_arr ! nat (hrs_tens tod)) OR
              mask_arr ! nat (min_ones tod))"
    by simp
qed

lemma digit_glyph_7bit:
  "0 \<le> i \<and> i \<le> 9 \<Longrightarrow> take_bit 7 (mask_arr ! nat i) = mask_arr ! nat i"
  by (rule mask_arr_7bit) linarith

lemma tens_glyph_7bit:
  "0 \<le> i \<and> i \<le> 9 \<Longrightarrow>
     take_bit 7 (if i = 0 then 0 else mask_arr ! nat i) = (if i = 0 then 0 else mask_arr ! nat i)"
  by (simp add: digit_glyph_7bit)

lemma accepted_fields:
  assumes "set_display_from_tod tod display = Some (0, d)"
  shows "seg_field 0 d = mask_arr ! nat (min_ones tod)"
    "seg_field 7 d = mask_arr ! nat (min_tens tod)"
    "seg_field 14 d = mask_arr ! nat (hrs_ones tod)"
    "seg_field 21 d = (if hrs_tens tod = 0 then 0 else mask_arr ! nat (hrs_tens tod))"
    "bit d 28 \<longleftrightarrow> ampm tod = 1" "bit d 29 \<longleftrightarrow> ampm tod \<noteq> 1"
proof -
  note p = accepted_pattern [OF assms]
  note r = digits_in_range(1-4) [OF p(1)]
  have f: "(if ampm tod = 1 then 28 else 29) = (28::nat) \<or>
           (if ampm tod = 1 then 28 else 29) = (29::nat)"
    by simp
  note F = fields_of_pattern [OF digit_glyph_7bit [OF r(1)] digit_glyph_7bit [OF r(2)]
      digit_glyph_7bit [OF r(3)] tens_glyph_7bit [OF r(4)] f, folded p(2)]
  show "seg_field 0 d = mask_arr ! nat (min_ones tod)"
    "seg_field 7 d = mask_arr ! nat (min_tens tod)"
    "seg_field 14 d = mask_arr ! nat (hrs_ones tod)"
    "seg_field 21 d = (if hrs_tens tod = 0 then 0 else mask_arr ! nat (hrs_tens tod))"
    by (rule F)+
  show "bit d 28 \<longleftrightarrow> ampm tod = 1" using F(5) by simp
  show "bit d 29 \<longleftrightarrow> ampm tod \<noteq> 1" using F(6) by simp
qed

lemma decoded_not_rejected:
  assumes "set_tod_from_ports st tod0 = (0, tod)"
  shows "\<not> tod_rejected tod"
proof -
  note f = decoded_fields [OF assms]
  have h: "1 \<le> time_hours tod \<and> time_hours tod \<le> 12"
    unfolding f(4) by (rule hour12_range) simp_all
  have m: "0 \<le> time_mins tod \<and> time_mins tod \<le> 59"
    unfolding f(5) by (rule mins_range)
  have s: "0 \<le> time_secs tod \<and> time_secs tod \<le> 59"
    unfolding f(6) by simp
  have a: "ampm tod = 1 \<or> ampm tod = 2"
    unfolding f(7) by simp
  from h m s a show ?thesis
    by (auto simp: tod_rejected_def)
qed

lemma encode_12_00_PM:
  "set_display_from_tod \<lparr>day_secs = 0, time_secs = 0, time_mins = 0, time_hours = 12, ampm = 2\<rparr> 0
     = Some (0, 613907447)"
  by (simp add: set_display_from_tod_def tod_rejected_def mask_at_def
      min_ones_def min_tens_def hrs_ones_def hrs_tens_def mask_arr_def)

section \<open>The claims about the encoder\<close>

text \<open>
  Claim C2, as stated: the encoder returns 1 and leaves the display cell alone exactly
  when the time of day breaks the bounds of the type, among them an hour outside [1, 12].
  It fails at hour 0: the validation tests \<open>time_hours < 0\<close>, so the time 0:00 with the
  designation AM breaks the bounds and is encoded all the same, with return code 0.
\<close>

theorem hour_zero_is_accepted:
  "\<not> tod_invariant \<lparr>day_secs = 0, time_secs = 0, time_mins = 0, time_hours = 0, ampm = 1\<rparr> \<and>
   set_display_from_tod \<lparr>day_secs = 0, time_secs = 0, time_mins = 0, time_hours = 0, ampm = 1\<rparr> 0
     = Some (0, 270400503)"
  by (simp add: tod_invariant_def AM_def PM_def set_display_from_tod_def tod_rejected_def
      mask_at_def min_ones_def min_tens_def hrs_ones_def hrs_tens_def mask_arr_def)

text \<open>
  Claim C2, amended. For a time of day whose AM/PM designation is 1 or 2, the encoder
  returns 1 and leaves the display cell alone exactly when the second or the minute is
  outside [0, 59] or the hour is outside [0, 12], and returns 0 when all three are inside;
  for a designation above 2 it returns 1 and leaves the display cell alone.
\<close>

theorem set_display_from_tod_validation:
  "(2 < ampm tod \<longrightarrow> set_display_from_tod tod display = Some (1, display)) \<and>
   (ampm tod = 1 \<or> ampm tod = 2 \<longrightarrow>
      (set_display_from_tod tod display = Some (1, display) \<longleftrightarrow>
         time_secs tod < 0 \<or> 59 < time_secs tod \<or> time_mins tod < 0 \<or> 59 < time_mins tod \<or>
         time_hours tod < 0 \<or> 12 < time_hours tod) \<and>
      (0 \<le> time_secs tod \<and> time_secs tod \<le> 59 \<and> 0 \<le> time_mins tod \<and> time_mins tod \<le> 59 \<and>
       0 \<le> time_hours tod \<and> time_hours tod \<le> 12 \<longrightarrow>
         (\<exists>d. set_display_from_tod tod display = Some (0, d))))"
proof (cases "tod_rejected tod")
  case True
  then have "set_display_from_tod tod display = Some (1, display)"
    by (rule set_display_from_tod_rejected)
  with True show ?thesis
    by (auto simp: tod_rejected_def)
next
  case False
  from set_display_from_tod_ok [OF False, of display]
  obtain d where "set_display_from_tod tod display = Some (0, d)"
    by blast
  with False show ?thesis
    by (auto simp: tod_rejected_def)
qed

theorem set_display_from_tod_validation_witness:
  "set_display_from_tod \<lparr>day_secs = 0, time_secs = 0, time_mins = 0, time_hours = 9, ampm = 3\<rparr> 77
     = Some (1, 77) \<and>
   set_display_from_tod \<lparr>day_secs = 0, time_secs = 0, time_mins = 60, time_hours = 9, ampm = 1\<rparr> 77
     = Some (1, 77) \<and>
   (\<exists>d. set_display_from_tod \<lparr>day_secs = 0, time_secs = 0, time_mins = 0, time_hours = 0, ampm = 1\<rparr> 77
     = Some (0, d))"
  using set_display_from_tod_validation
      [of "\<lparr>day_secs = 0, time_secs = 0, time_mins = 0, time_hours = 9, ampm = 3\<rparr>" 77]
    set_display_from_tod_validation
      [of "\<lparr>day_secs = 0, time_secs = 0, time_mins = 60, time_hours = 9, ampm = 1\<rparr>" 77]
    set_display_from_tod_validation
      [of "\<lparr>day_secs = 0, time_secs = 0, time_mins = 0, time_hours = 0, ampm = 1\<rparr>" 77]
  by simp

text \<open>
  Claim C7. In every pattern that the encoder returns with code 0, the field of bits 21 to
  27 is zero exactly when the hour is below 10, and for an hour of 10 or more it is the
  mask of the digit 1; the fields at the offsets 0, 7 and 14 are the masks of the ones of
  the minutes, the tens of the minutes and the ones of the hours.
\<close>

theorem display_fields:
  assumes "set_display_from_tod tod display = Some (0, d)"
  shows "(seg_field 21 d = 0 \<longleftrightarrow> time_hours tod < 10) \<and>
         (10 \<le> time_hours tod \<longrightarrow> seg_field 21 d = mask_arr ! 1 \<and> seg_field 21 d = 0b0100100) \<and>
         seg_field 0 d = mask_arr ! nat (time_mins tod mod 10) \<and>
         seg_field 7 d = mask_arr ! nat (time_mins tod div 10) \<and>
         seg_field 14 d = mask_arr ! nat (time_hours tod mod 10)"
proof -
  note F = accepted_fields(1-4) [OF assms]
  note p = accepted_pattern(1) [OF assms]
  note e = digits_in_range(5-8) [OF p]
  from p have h: "0 \<le> time_hours tod" "time_hours tod \<le> 12"
    by (simp_all add: tod_rejected_def)
  have t: "hrs_tens tod = (if time_hours tod < 10 then 0 else 1)"
    unfolding e using h by presburger
  have f21: "seg_field 21 d = (if time_hours tod < 10 then 0 else mask_arr ! 1)"
    unfolding F(4) t by simp
  have "seg_field 21 d = 0 \<longleftrightarrow> time_hours tod < 10"
    unfolding f21 by (simp add: mask_arr_def)
  moreover have "10 \<le> time_hours tod \<longrightarrow>
      seg_field 21 d = mask_arr ! 1 \<and> seg_field 21 d = 0b0100100"
    unfolding f21 by (simp add: mask_arr_def)
  moreover have "seg_field 0 d = mask_arr ! nat (time_mins tod mod 10)"
    "seg_field 7 d = mask_arr ! nat (time_mins tod div 10)"
    "seg_field 14 d = mask_arr ! nat (time_hours tod mod 10)"
    using F(1-3) by (simp_all only: e)
  ultimately show ?thesis by blast
qed

theorem display_fields_witness:
  "set_display_from_tod \<lparr>day_secs = 0, time_secs = 0, time_mins = 0, time_hours = 12, ampm = 2\<rparr> 0
     = Some (0, 613907447) \<and>
   seg_field 21 613907447 = 0b0100100 \<and> seg_field 14 613907447 = mask_arr ! 2"
  using display_fields [OF encode_12_00_PM] encode_12_00_PM by (simp add: mask_arr_def)

text \<open>
  Claim C8. In every pattern that the encoder returns with code 0, exactly one of the bits
  28 and 29 is set: bit 28 for the designation AM, bit 29 for PM.
\<close>

theorem meridiem_bits_exclusive:
  assumes "set_display_from_tod tod display = Some (0, d)"
  shows "(bit d 28 \<longleftrightarrow> \<not> bit d 29) \<and>
         (ampm tod = AM \<longrightarrow> bit d 28 \<and> \<not> bit d 29) \<and>
         (ampm tod = PM \<longrightarrow> bit d 29 \<and> \<not> bit d 28)"
  using accepted_fields(5,6) [OF assms] by (simp add: AM_def PM_def)

theorem meridiem_bits_exclusive_witness:
  "set_display_from_tod \<lparr>day_secs = 0, time_secs = 0, time_mins = 0, time_hours = 12, ampm = 2\<rparr> 0
     = Some (0, 613907447) \<and>
   bit (613907447 :: 32 word) 29 \<and> \<not> bit (613907447 :: 32 word) 28"
  using meridiem_bits_exclusive [OF encode_12_00_PM] encode_12_00_PM by (simp add: PM_def)

text \<open>
  Claim C10. For every time of day that passes the validation of the encoder, the four
  indices into the array of ten masks (the minute modulo 10, the minute divided by 10,
  the hour modulo 10 and the hour divided by 10) lie in [0, 9], so every read of the array
  is in bounds and the encoder returns.
\<close>

theorem mask_indices_in_bounds:
  assumes "\<not> tod_rejected tod"
  shows "min_ones tod = time_mins tod mod 10 \<and> min_tens tod = time_mins tod div 10 \<and>
         hrs_ones tod = time_hours tod mod 10 \<and> hrs_tens tod = time_hours tod div 10 \<and>
         0 \<le> min_ones tod \<and> min_ones tod \<le> 9 \<and> 0 \<le> min_tens tod \<and> min_tens tod \<le> 9 \<and>
         0 \<le> hrs_ones tod \<and> hrs_ones tod \<le> 9 \<and> 0 \<le> hrs_tens tod \<and> hrs_tens tod \<le> 9 \<and>
         length mask_arr = 10 \<and>
         mask_at (min_ones tod) \<noteq> None \<and> mask_at (min_tens tod) \<noteq> None \<and>
         mask_at (hrs_ones tod) \<noteq> None \<and> mask_at (hrs_tens tod) \<noteq> None \<and>
         set_display_from_tod tod display \<noteq> None"
proof -
  note d = digits_in_range [OF assms]
  have m: "mask_at (min_ones tod) \<noteq> None" "mask_at (min_tens tod) \<noteq> None"
    "mask_at (hrs_ones tod) \<noteq> None" "mask_at (hrs_tens tod) \<noteq> None"
    using d(1-4) by (simp_all add: mask_at_Some)
  have s: "set_display_from_tod tod display \<noteq> None"
    by (simp add: set_display_from_tod_ok [OF assms])
  from d m s length_mask_arr show ?thesis by blast
qed

theorem mask_indices_in_bounds_witness:
  "\<not> tod_rejected \<lparr>day_secs = 0, time_secs = 0, time_mins = 59, time_hours = 12, ampm = 2\<rparr> \<and>
   min_ones \<lparr>day_secs = 0, time_secs = 0, time_mins = 59, time_hours = 12, ampm = 2\<rparr> = 9 \<and>
   min_tens \<lparr>day_secs = 0, time_secs = 0, time_mins = 59, time_hours = 12, ampm = 2\<rparr> = 5 \<and>
   hrs_ones \<lparr>day_secs = 0, time_secs = 0, time_mins = 59, time_hours = 12, ampm = 2\<rparr> = 2 \<and>
   hrs_tens \<lparr>day_secs = 0, time_secs = 0, time_mins = 59, time_hours = 12, ampm = 2\<rparr> = 1"
proof -
  have r: "\<not> tod_rejected \<lparr>day_secs = 0, time_secs = 0, time_mins = 59, time_hours = 12, ampm = 2\<rparr>"
    by (simp add: tod_rejected_def)
  from mask_indices_in_bounds [OF r, of 0] r show ?thesis by simp
qed

section \<open>The claim about the controller\<close>

text \<open>
  Claim C9. On a port value outside [0, 16*86400], such as -1 or 16*86400 + 1, the
  controller returns 1 and leaves both ports as they were, so the display keeps its
  pattern; on a port value inside, it returns 0 and the display port holds the pattern
  that the encoder gives, with code 0, for the decoded time of day.
\<close>

theorem clock_update_effect:
  "(port_val st < 0 \<or> 16 * 86400 < port_val st \<longrightarrow> clock_update tod0 st = Some (1, st)) \<and>
   (0 \<le> port_val st \<and> port_val st \<le> 16 * 86400 \<longrightarrow>
      (\<exists>tod d. set_tod_from_ports st tod0 = (0, tod) \<and>
               set_display_from_tod tod 0 = Some (0, d) \<and>
               clock_update tod0 st = Some (0, st\<lparr>CLOCK_DISPLAY_PORT := d\<rparr>)))"
proof (cases "0 \<le> port_val st \<and> port_val st \<le> 16 * 86400")
  case True
  then have r: "0 \<le> sint (TIME_OF_DAY_PORT st)" "sint (TIME_OF_DAY_PORT st) \<le> 16 * 86400"
    by (simp_all add: port_val_def)
  from set_tod_from_ports_ok [OF r, of tod0]
  obtain tod where t: "set_tod_from_ports st tod0 = (0, tod)"
    by blast
  from set_display_from_tod_ok [OF decoded_not_rejected [OF t], of 0]
  obtain d where d: "set_display_from_tod tod 0 = Some (0, d)"
    by blast
  have "clock_update tod0 st = Some (0, st\<lparr>CLOCK_DISPLAY_PORT := d\<rparr>)"
    by (simp add: clock_update_def t d)
  with t d True show ?thesis by auto
next
  case False
  then have "sint (TIME_OF_DAY_PORT st) < 0 \<or> 16 * 86400 < sint (TIME_OF_DAY_PORT st)"
    by (auto simp: port_val_def)
  then have "set_tod_from_ports st tod0 = (1, tod0)"
    by (rule set_tod_from_ports_fail)
  then have "clock_update tod0 st = Some (1, st)"
    by (simp add: clock_update_def)
  with False show ?thesis by auto
qed

theorem clock_update_effect_witness:
  "clock_update \<lparr>day_secs = 0, time_secs = 0, time_mins = 0, time_hours = 0, ampm = 0\<rparr>
      \<lparr>TIME_OF_DAY_PORT = - 1, CLOCK_DISPLAY_PORT = 344538091\<rparr>
     = Some (1, \<lparr>TIME_OF_DAY_PORT = - 1, CLOCK_DISPLAY_PORT = 344538091\<rparr>) \<and>
   clock_update \<lparr>day_secs = 0, time_secs = 0, time_mins = 0, time_hours = 0, ampm = 0\<rparr>
      \<lparr>TIME_OF_DAY_PORT = 16 * 86400 + 1, CLOCK_DISPLAY_PORT = 344538091\<rparr>
     = Some (1, \<lparr>TIME_OF_DAY_PORT = 16 * 86400 + 1, CLOCK_DISPLAY_PORT = 344538091\<rparr>) \<and>
   (\<exists>d. clock_update \<lparr>day_secs = 0, time_secs = 0, time_mins = 0, time_hours = 0, ampm = 0\<rparr>
      \<lparr>TIME_OF_DAY_PORT = 16 * 39906, CLOCK_DISPLAY_PORT = 7\<rparr>
     = Some (0, \<lparr>TIME_OF_DAY_PORT = 16 * 39906, CLOCK_DISPLAY_PORT = d\<rparr>))"
  using clock_update_effect [of "\<lparr>TIME_OF_DAY_PORT = - 1, CLOCK_DISPLAY_PORT = 344538091\<rparr>"
      "\<lparr>day_secs = 0, time_secs = 0, time_mins = 0, time_hours = 0, ampm = 0\<rparr>"]
    clock_update_effect [of "\<lparr>TIME_OF_DAY_PORT = 16 * 86400 + 1, CLOCK_DISPLAY_PORT = 344538091\<rparr>"
      "\<lparr>day_secs = 0, time_secs = 0, time_mins = 0, time_hours = 0, ampm = 0\<rparr>"]
    clock_update_effect [of "\<lparr>TIME_OF_DAY_PORT = 16 * 39906, CLOCK_DISPLAY_PORT = 7\<rparr>"
      "\<lparr>day_secs = 0, time_secs = 0, time_mins = 0, time_hours = 0, ampm = 0\<rparr>"]
  by (auto simp: port_val_def)

end
